theory Spec2Isabelle
  imports Complex_Main
begin

section \<open>Numbers and coercion\<close>

text \<open>
  The engine of \<^verbatim>\<open>src/src/App.jsx\<close> computes on JavaScript Numbers. They are modelled here
  as exact reals: every arithmetic operation, comparison, \<^verbatim>\<open>Math.max\<close>, \<^verbatim>\<open>Math.min\<close> and
  \<^verbatim>\<open>Math.round\<close> is the mathematical one, so the binary rounding of IEEE doubles, overflow to
  \<^verbatim>\<open>Infinity\<close> and \<^verbatim>\<open>NaN\<close> are outside the model. A value that the code reads from its
  input and coerces with \<^verbatim>\<open>clampNumber\<close> is a \<open>raw\<close> value: \<open>Some n\<close> when
  \<^verbatim>\<open>Number(v)\<close> is the finite number \<open>n\<close>, \<open>None\<close> otherwise (undefined, a string that is
  not a number, \<^verbatim>\<open>NaN\<close>, an infinity).
\<close>

type_synonym raw = "real option"

definition clampNumber :: "raw \<Rightarrow> real \<Rightarrow> real" where
  "clampNumber v fallback = (case v of Some n \<Rightarrow> n | None \<Rightarrow> fallback)"

definition EPSILON :: real where
  \<comment> \<open>\<^verbatim>\<open>Number.EPSILON\<close>\<close>
  "EPSILON = 1 / 2 ^ 52"

definition Math_round :: "real \<Rightarrow> real" where
  \<comment> \<open>\<^verbatim>\<open>Math.round\<close>: the nearest integer, a half rounded up\<close>
  "Math_round x = of_int \<lfloor>x + 1 / 2\<rfloor>"

definition round2 :: "real \<Rightarrow> real" where
  \<comment> \<open>on a number \<^verbatim>\<open>clampNumber(n, 0)\<close> is \<open>n\<close>\<close>
  "round2 n = Math_round ((n + EPSILON) * 100) / 100"

section \<open>Minimum payment estimator\<close>

text \<open>
  \<^verbatim>\<open>estimateMinimumPayment(debt)\<close> reads \<^verbatim>\<open>debt.type\<close>, \<^verbatim>\<open>debt.balance\<close> and
  \<^verbatim>\<open>debt.interest_rate\<close>; these are the three arguments. The type is the string the code
  compares with \<^verbatim>\<open>===\<close>; the form offers \<^verbatim>\<open>credit_card\<close>, \<^verbatim>\<open>loan\<close>, \<^verbatim>\<open>loc\<close>
  (shown as "Line of Credit") and \<^verbatim>\<open>other\<close>.
\<close>

definition estimateMinimumPayment :: "string \<Rightarrow> raw \<Rightarrow> raw \<Rightarrow> real" where
  "estimateMinimumPayment type balance0 interest_rate =
     (let balance = max 0 (clampNumber balance0 0);
          apr = max 0 (clampNumber interest_rate 0);
          r = (apr / 100) / 12;
          interestOnly = balance * r;
          floor = 25
      in if type = ''credit_card'' then
           (let pctOfBalance = 0.02 * balance;
                interestPlusPrincipal = interestOnly + 0.01 * balance
            in max floor (max pctOfBalance interestPlusPrincipal))
         else if type = ''loc'' then max floor interestOnly
         else if type = ''loan'' then
           (let principalPortion = balance / 36
            in max floor (interestOnly + principalPortion))
         else
           (let pct = 0.015 * balance
            in max floor (max (interestOnly + 0.005 * balance) pct)))"

text \<open>
  \<^verbatim>\<open>computeMonthlyMinimumDynamic(debt, currentBalance)\<close> reads \<^verbatim>\<open>debt.type\<close>,
  \<^verbatim>\<open>debt.interest_rate\<close>, \<^verbatim>\<open>debt.min_floor_enabled\<close> and \<^verbatim>\<open>debt.min_floor\<close>. Both
  callers pass a number as \<^verbatim>\<open>min_floor\<close>.
\<close>

definition computeMonthlyMinimumDynamic :: "string \<Rightarrow> raw \<Rightarrow> bool \<Rightarrow> real \<Rightarrow> raw \<Rightarrow> real" where
  "computeMonthlyMinimumDynamic type interest_rate min_floor_enabled min_floor currentBalance =
     (let est = estimateMinimumPayment type currentBalance interest_rate
      in if min_floor_enabled then max est min_floor else est)"

section \<open>Debt ids and objects keyed by them\<close>

text \<open>
  A debt id is a number or a string. The numbers are array positions (\<^verbatim>\<open>activeDebts\<close>
  sets \<^verbatim>\<open>id: idx\<close>), the strings come from \<^verbatim>\<open>DEFAULTS\<close> and \<^verbatim>\<open>makeId\<close>. An object
  indexed with an id uses the id's property key, the string \<^verbatim>\<open>String(id)\<close>. A key is
  kept in one of two forms: \<open>KNum n\<close> stands for the canonical decimal numeral of \<open>n\<close>,
  \<open>KStr s\<close> for any other string. So the number \<open>5\<close> and the string \<^verbatim>\<open>"5"\<close> share a key,
  as they do in JavaScript.
\<close>

datatype jsid = IdNum nat | IdStr string

datatype pkey = KNum nat | KStr string

definition is_digit :: "char \<Rightarrow> bool" where
  "is_digit c = (c \<in> set ''0123456789'')"

definition digit_val :: "char \<Rightarrow> nat" where
  "digit_val c = of_char c - 48"

definition canonical_nat :: "string \<Rightarrow> nat option" where
  \<comment> \<open>the number a string is the canonical decimal numeral of, if any\<close>
  "canonical_nat s =
     (if s \<noteq> [] \<and> list_all is_digit s \<and> (s = ''0'' \<or> hd s \<noteq> CHR ''0'')
      then Some (foldl (\<lambda>n c. 10 * n + digit_val c) 0 s) else None)"

definition pkey_of :: "jsid \<Rightarrow> pkey" where
  "pkey_of i = (case i of IdNum n \<Rightarrow> KNum n
                | IdStr s \<Rightarrow> (case canonical_nat s of Some n \<Rightarrow> KNum n | None \<Rightarrow> KStr s))"

text \<open>
  An object whose values are numbers is the list of its entries in insertion order.
  Assigning to an existing key keeps the key's position.
\<close>

type_synonym obj = "(pkey \<times> real) list"

definition obj_get :: "obj \<Rightarrow> pkey \<Rightarrow> real option" where
  "obj_get ob k = map_of ob k"

definition obj_get0 :: "obj \<Rightarrow> pkey \<Rightarrow> real" where
  \<comment> \<open>\<^verbatim>\<open>ob[k] || 0\<close>, also \<^verbatim>\<open>clampNumber(ob[k], 0)\<close>\<close>
  "obj_get0 ob k = (case obj_get ob k of Some v \<Rightarrow> v | None \<Rightarrow> 0)"

fun obj_set :: "obj \<Rightarrow> pkey \<Rightarrow> real \<Rightarrow> obj" where
  "obj_set [] k v = [(k, v)]"
| "obj_set ((k', v') # ob) k v =
     (if k' = k then (k, v) # ob else (k', v') # obj_set ob k v)"

definition is_array_index :: "pkey \<Rightarrow> bool" where
  "is_array_index k = (case k of KNum n \<Rightarrow> n < 4294967295 | KStr s \<Rightarrow> False)"

definition index_of :: "pkey \<Rightarrow> nat" where
  "index_of k = (case k of KNum n \<Rightarrow> n | KStr s \<Rightarrow> 0)"

definition Object_entries :: "obj \<Rightarrow> (pkey \<times> real) list" where
  \<comment> \<open>array-index keys in ascending order, then the other keys in insertion order\<close>
  "Object_entries ob =
     sort_key (\<lambda>e. index_of (fst e)) (filter (\<lambda>e. is_array_index (fst e)) ob)
     @ filter (\<lambda>e. \<not> is_array_index (fst e)) ob"

text \<open>
  \<^verbatim>\<open>Number(idStr)\<close> on a key. On the numeral of \<open>n\<close> it is \<open>n\<close>. On any other string it is
  what the language's string-to-number conversion gives; that conversion is the parameter
  \<open>N\<close> of the simulator. Its result is \<open>NaN\<close>, a natural number, or another number, which
  is kept as the string \<^verbatim>\<open>String\<close> prints it as (the simulator only compares the
  result with ids and uses it as a key).
\<close>

datatype jsnumber = NaN | Num nat | NumStr string

definition Number_of_key :: "(string \<Rightarrow> jsnumber) \<Rightarrow> pkey \<Rightarrow> jsnumber" where
  "Number_of_key N k = (case k of KNum n \<Rightarrow> Num n | KStr s \<Rightarrow> N s)"

definition key_of_target :: "jsnumber option \<Rightarrow> pkey" where
  \<comment> \<open>the property key of \<^verbatim>\<open>actualTargetId\<close>; \<open>None\<close> is \<^verbatim>\<open>null\<close>\<close>
  "key_of_target t = (case t of None \<Rightarrow> KStr ''null''
                      | Some NaN \<Rightarrow> KStr ''NaN''
                      | Some (Num n) \<Rightarrow> KNum n
                      | Some (NumStr s) \<Rightarrow> pkey_of (IdStr s))"

definition id_is_number :: "jsid \<Rightarrow> jsnumber \<Rightarrow> bool" where
  \<comment> \<open>\<^verbatim>\<open>x.id === actualTargetId\<close> for a number on the right\<close>
  "id_is_number i t = (case t of Num n \<Rightarrow> i = IdNum n | _ \<Rightarrow> False)"

section \<open>Debts as the interface hands them over\<close>

text \<open>
  One record for the debt objects of the interface layer. A field the object does not carry
  is \<open>None\<close> (a number that is read with \<^verbatim>\<open>clampNumber\<close>), \<open>False\<close> (a flag that is read
  with \<^verbatim>\<open>!!\<close>) or the empty string.
\<close>

record debt =
  d_id :: jsid
  d_name :: string
  d_type :: string
  d_balance :: raw
  d_interest_rate :: raw
  d_min_override_enabled :: bool
  d_min_override_amount :: raw
  d_min_floor_enabled :: bool
  d_min_floor :: raw
  d_estimated_minimum_payment :: raw
  d_minimum_payment :: raw

definition debtsWithMin :: "debt list \<Rightarrow> debt list" where
  "debtsWithMin debts = map (\<lambda>d.
       let est = estimateMinimumPayment (d_type d) (d_balance d) (d_interest_rate d);
           overrideEnabled = d_min_override_enabled d;
           overrideAmount = max 0 (clampNumber (d_min_override_amount d) 0);
           chosenMin = (if overrideEnabled then overrideAmount else est)
       in d\<lparr>d_estimated_minimum_payment := Some est, d_minimum_payment := Some chosenMin\<rparr>) debts"

definition is_space :: "char \<Rightarrow> bool" where
  "is_space c = (of_char c \<in> {9, 10, 11, 12, 13, 32, 160 :: nat})"

definition trim :: "string \<Rightarrow> string" where
  "trim s = rev (dropWhile is_space (rev (dropWhile is_space s)))"

definition activeDebts :: "debt list \<Rightarrow> debt list" where
  "activeDebts dwm = filter (\<lambda>d. clampNumber (d_balance d) 0 > 0)
     (map (\<lambda>(idx, d).
        \<lparr>d_id = IdNum idx,
         d_name = (if trim (d_name d) = [] then ''Debt'' else trim (d_name d)),
         d_type = (if d_type d = [] then ''other'' else d_type d),
         d_balance = Some (max 0 (clampNumber (d_balance d) 0)),
         d_interest_rate = Some (max 0 (clampNumber (d_interest_rate d) 0)),
         d_min_override_enabled = False,
         d_min_override_amount = None,
         d_min_floor_enabled = d_min_override_enabled d,
         d_min_floor = Some (max 0 (clampNumber (d_min_override_amount d) 0)),
         d_estimated_minimum_payment = None,
         d_minimum_payment = None\<rparr>) (enumerate 0 dwm))"

section \<open>Schedule requirement resolver\<close>

record schedule_row =
  row_month :: raw
  row_amount :: raw
  row_allocations :: "obj option"

record required_info =
  requiredByDebtId :: obj
  requiredSum :: real
  overBudget :: bool
  unassigned :: real

fun requiredLoop :: "obj \<Rightarrow> debt list \<Rightarrow> obj \<times> real \<Rightarrow> obj \<times> real" where
  "requiredLoop alloc [] acc = acc"
| "requiredLoop alloc (d # ds) (byId, rsum) =
     (let bal = max 0 (clampNumber (d_balance d) 0)
      in if bal \<le> 0 then requiredLoop alloc ds (byId, rsum)
         else
           (let mn = max 0 (clampNumber (d_minimum_payment d) 0);
                user = max 0 (clampNumber (obj_get alloc (pkey_of (d_id d))) 0);
                required = round2 (max mn user)
            in requiredLoop alloc ds
                 (obj_set byId (pkey_of (d_id d)) required, round2 (rsum + required))))"

definition computeScheduleMonthRequiredPayments ::
    "debt list \<Rightarrow> schedule_row \<Rightarrow> raw \<Rightarrow> required_info" where
  "computeScheduleMonthRequiredPayments debts scheduleRow monthlyPayment =
     (let mPay = max 0 (round2 (clampNumber monthlyPayment 0));
          alloc = (case row_allocations scheduleRow of Some a \<Rightarrow> a | None \<Rightarrow> []);
          res = requiredLoop alloc debts ([], 0)
      in \<lparr>requiredByDebtId = fst res,
          requiredSum = snd res,
          overBudget = (snd res - mPay > 0.000001),
          unassigned = round2 (max 0 (mPay - snd res))\<rparr>)"

section \<open>Payment plan provider\<close>

record plan =
  p_monthlyPayment :: raw
  p_requiredByDebtId :: "obj option"
  p_requiredSum :: raw
  p_overBudget :: bool
  p_unassigned :: raw

text \<open>
  The \<^verbatim>\<open>Map\<close> from month to normalised row is the list of its entries; \<^verbatim>\<open>map.set\<close> on
  a month that is present replaces its row. \<^verbatim>\<open>maxMonth\<close> is a key of the map whenever it
  is not 0, so the lookup of \<^verbatim>\<open>lastRow\<close> always finds a row.
\<close>

fun map_set :: "(int \<times> schedule_row) list \<Rightarrow> int \<Rightarrow> schedule_row \<Rightarrow> (int \<times> schedule_row) list" where
  "map_set [] k v = [(k, v)]"
| "map_set ((k', v') # m) k v = (if k' = k then (k, v) # m else (k', v') # map_set m k v)"

definition normalizeRows :: "schedule_row list \<Rightarrow> (int \<times> schedule_row) list" where
  "normalizeRows scheduleRows = foldl (\<lambda>m row.
       let mth = max 1 \<lfloor>clampNumber (row_month row) 0\<rfloor>
       in map_set m mth
            \<lparr>row_month = Some (of_int mth),
             row_amount = Some (max 0 (round2 (clampNumber (row_amount row) 0))),
             row_allocations = Some (case row_allocations row of Some a \<Rightarrow> a | None \<Rightarrow> [])\<rparr>)
     [] scheduleRows"

definition getPaymentPlanFn ::
    "string \<Rightarrow> real \<Rightarrow> schedule_row list \<Rightarrow> debt list \<Rightarrow> nat \<Rightarrow> plan" where
  "getPaymentPlanFn paymentMode monthlyPayment scheduleRows debtsWithMin0 =
     (let fixed = max 0 (round2 monthlyPayment)
      in if paymentMode \<noteq> ''schedule'' then
           (\<lambda>month. \<lparr>p_monthlyPayment = Some fixed, p_requiredByDebtId = None,
                      p_requiredSum = None, p_overBudget = False, p_unassigned = None\<rparr>)
         else
           (let m = normalizeRows scheduleRows;
                maxMonth = foldl max 0 (map fst m);
                firstRow = \<lparr>row_month = Some 1, row_amount = Some fixed,
                            row_allocations = Some []\<rparr>;
                lastRow = (if maxMonth \<noteq> 0
                           then (case map_of m maxMonth of Some r \<Rightarrow> r | None \<Rightarrow> firstRow)
                           else firstRow)
            in (\<lambda>month.
                  let row = (case map_of m (int month) of Some r \<Rightarrow> r | None \<Rightarrow> lastRow);
                      info = computeScheduleMonthRequiredPayments debtsWithMin0 row (row_amount row)
                  in \<lparr>p_monthlyPayment = row_amount row,
                      p_requiredByDebtId = Some (requiredByDebtId info),
                      p_requiredSum = Some (requiredSum info),
                      p_overBudget = overBudget info,
                      p_unassigned = Some (unassigned info)\<rparr>)))"

section \<open>Strategy simulator\<close>

record debt_state =
  s_id :: jsid
  s_name :: string
  s_type :: string
  s_apr :: real
  s_r :: real
  s_balance :: real
  s_interestPaid :: real
  s_payoffMonth :: "nat option"
  s_min_floor_enabled :: bool
  s_min_floor :: real

definition init_state :: "debt \<Rightarrow> debt_state" where
  "init_state d =
     \<lparr>s_id = d_id d, s_name = d_name d, s_type = d_type d,
      s_apr = max 0 (clampNumber (d_interest_rate d) 0),
      s_r = (max 0 (clampNumber (d_interest_rate d) 0) / 100) / 12,
      s_balance = round2 (max 0 (clampNumber (d_balance d) 0)),
      s_interestPaid = 0,
      s_payoffMonth = None,
      s_min_floor_enabled = d_min_floor_enabled d,
      s_min_floor = round2 (max 0 (clampNumber (d_min_floor d) 0))\<rparr>"

definition eps :: real where
  "eps = 0.000001"

definition allPaid :: "debt_state list \<Rightarrow> bool" where
  "allPaid state = list_all (\<lambda>d. s_balance d \<le> eps) state"

text \<open>
  \<^verbatim>\<open>Array.prototype.sort\<close> with a comparator is stable; with a consistent comparator its
  result is the one a stable insertion sort gives. An element goes before the first element
  it does not compare greater than.
\<close>

fun insert_by :: "('a \<Rightarrow> 'a \<Rightarrow> real) \<Rightarrow> 'a \<Rightarrow> 'a list \<Rightarrow> 'a list" where
  "insert_by cmp x [] = [x]"
| "insert_by cmp x (y # ys) = (if cmp x y \<le> 0 then x # y # ys else y # insert_by cmp x ys)"

definition sort_by :: "('a \<Rightarrow> 'a \<Rightarrow> real) \<Rightarrow> 'a list \<Rightarrow> 'a list" where
  "sort_by cmp xs = foldr (insert_by cmp) xs []"

definition cmp_snowball :: "debt_state \<Rightarrow> debt_state \<Rightarrow> real" where
  \<comment> \<open>\<^verbatim>\<open>a.balance - b.balance || b.apr - a.apr\<close>\<close>
  "cmp_snowball a b =
     (if s_balance a - s_balance b \<noteq> 0 then s_balance a - s_balance b else s_apr b - s_apr a)"

definition cmp_avalanche :: "debt_state \<Rightarrow> debt_state \<Rightarrow> real" where
  \<comment> \<open>\<^verbatim>\<open>b.apr - a.apr || a.balance - b.balance\<close>\<close>
  "cmp_avalanche a b =
     (if s_apr b - s_apr a \<noteq> 0 then s_apr b - s_apr a else s_balance a - s_balance b)"

definition pickTargetId :: "string \<Rightarrow> debt_state list \<Rightarrow> jsid option" where
  "pickTargetId strategy state =
     (let active = filter (\<lambda>d. s_balance d > eps) state
      in if active = [] then None
         else (case (if strategy = ''snowball'' then sort_by cmp_snowball active
                     else sort_by cmp_avalanche active) of
                 [] \<Rightarrow> None
               | a # rest \<Rightarrow> Some (s_id a)))"

subsection \<open>The steps of one month\<close>

text \<open>Step 1: interest accrual. The result is the new state and the month's interest total.\<close>

fun accrue :: "debt_state list \<Rightarrow> real \<Rightarrow> debt_state list \<times> real" where
  "accrue [] interestThisMonthTotal = ([], interestThisMonthTotal)"
| "accrue (d # ds) interestThisMonthTotal =
     (if s_balance d \<le> eps then
        (case accrue ds interestThisMonthTotal of (ds', t) \<Rightarrow> (d # ds', t))
      else
        (let interest = round2 (s_balance d * s_r d);
             d' = d\<lparr>s_balance := round2 (s_balance d + interest),
                    s_interestPaid := round2 (s_interestPaid d + interest)\<rparr>
         in case accrue ds (round2 (interestThisMonthTotal + interest)) of
              (ds', t) \<Rightarrow> (d' # ds', t)))"

text \<open>Step 2: the dynamic minimums after interest.\<close>

fun dynamicMins :: "debt_state list \<Rightarrow> obj \<Rightarrow> obj" where
  "dynamicMins [] dynamicMinByDebtId = dynamicMinByDebtId"
| "dynamicMins (d # ds) dynamicMinByDebtId =
     (if s_balance d \<le> eps then dynamicMins ds dynamicMinByDebtId
      else dynamicMins ds
             (obj_set dynamicMinByDebtId (pkey_of (s_id d))
                (round2 (computeMonthlyMinimumDynamic (s_type d) (Some (s_apr d))
                           (s_min_floor_enabled d) (s_min_floor d) (Some (s_balance d))))))"

text \<open>Step 3: the required payments, in the order of the state.\<close>

record pay_acc =
  remaining :: real
  minPaidTotal :: real
  directedPaidTotal :: real
  paidThisMonthByDebtId :: obj
  requiredSumThisMonth :: real

definition settle :: "nat \<Rightarrow> real \<Rightarrow> debt_state \<Rightarrow> debt_state" where
  \<comment> \<open>a payment reaches a debt: the balance goes down, the payoff month is set once\<close>
  "settle month pay d =
     (let b = round2 (s_balance d - pay)
      in d\<lparr>s_balance := b,
           s_payoffMonth := (if b \<le> eps \<and> s_payoffMonth d = None then Some month
                             else s_payoffMonth d)\<rparr>)"

fun payRequired ::
    "nat \<Rightarrow> obj \<Rightarrow> obj option \<Rightarrow> debt_state list \<Rightarrow> pay_acc \<Rightarrow> debt_state list \<times> pay_acc" where
  "payRequired month dynamicMinByDebtId req [] a = ([], a)"
| "payRequired month dynamicMinByDebtId req (d # ds) a =
     (if s_balance d \<le> eps then
        (case payRequired month dynamicMinByDebtId req ds a of (ds', a') \<Rightarrow> (d # ds', a'))
      else
        (let dynamicMin = obj_get0 dynamicMinByDebtId (pkey_of (s_id d));
             alloc = (case req of Some rq \<Rightarrow> max 0 (obj_get0 rq (pkey_of (s_id d)))
                      | None \<Rightarrow> 0);
             intended = (case req of Some rq \<Rightarrow> max alloc dynamicMin | None \<Rightarrow> dynamicMin);
             a1 = a\<lparr>requiredSumThisMonth := round2 (requiredSumThisMonth a + intended)\<rparr>;
             pay = round2 (min intended (min (s_balance d) (remaining a)))
         in if pay > 0 then
              (let minPortion = min dynamicMin pay;
                   a2 = a1\<lparr>paidThisMonthByDebtId :=
                             obj_set (paidThisMonthByDebtId a) (pkey_of (s_id d))
                               (round2 (obj_get0 (paidThisMonthByDebtId a) (pkey_of (s_id d)) + pay)),
                           minPaidTotal := round2 (minPaidTotal a + minPortion),
                           directedPaidTotal :=
                             (if req \<noteq> None then round2 (directedPaidTotal a + pay)
                              else directedPaidTotal a),
                           remaining := round2 (remaining a - pay)\<rparr>
               in case payRequired month dynamicMinByDebtId req ds a2 of
                    (ds', a') \<Rightarrow> (settle month pay d # ds', a'))
            else
              (case payRequired month dynamicMinByDebtId req ds a1 of
                 (ds', a') \<Rightarrow> (d # ds', a'))))"

text \<open>
  Step 4: the strategy's extra payments. \<^verbatim>\<open>state.find\<close> returns the first debt with the
  target's id, and the payment is applied to that debt. One round of the loop is
  \<open>extra_step\<close>; \<open>None\<close> is a \<^verbatim>\<open>break\<close>.
\<close>

record extra_acc =
  x_state :: "debt_state list"
  x_remaining :: real
  x_extraPaidTotal :: real
  x_extraByDebtId :: obj
  x_paid :: obj

fun update_first :: "('a \<Rightarrow> bool) \<Rightarrow> ('a \<Rightarrow> 'a) \<Rightarrow> 'a list \<Rightarrow> 'a list" where
  "update_first P f [] = []"
| "update_first P f (x # xs) = (if P x then f x # xs else x # update_first P f xs)"

definition extra_step :: "string \<Rightarrow> nat \<Rightarrow> extra_acc \<Rightarrow> extra_acc option" where
  "extra_step strategy month x =
     (case pickTargetId strategy (x_state x) of
        None \<Rightarrow> None
      | Some targetId \<Rightarrow>
          (case find (\<lambda>d. s_id d = targetId) (x_state x) of
             None \<Rightarrow> None
           | Some t \<Rightarrow>
               if s_balance t \<le> eps then None
               else
                 (let pay = round2 (min (s_balance t) (x_remaining x))
                  in if pay \<le> 0 then None
                     else Some
                       \<lparr>x_state = update_first (\<lambda>d. s_id d = targetId) (settle month pay) (x_state x),
                        x_remaining = round2 (x_remaining x - pay),
                        x_extraPaidTotal = round2 (x_extraPaidTotal x + pay),
                        x_extraByDebtId =
                          obj_set (x_extraByDebtId x) (pkey_of targetId)
                            (round2 (obj_get0 (x_extraByDebtId x) (pkey_of targetId) + pay)),
                        x_paid =
                          obj_set (x_paid x) (pkey_of targetId)
                            (round2 (obj_get0 (x_paid x) (pkey_of targetId) + pay))\<rparr>)))"

definition num_active :: "debt_state list \<Rightarrow> nat" where
  "num_active state = length (filter (\<lambda>d. s_balance d > eps) state)"

definition extra_measure :: "extra_acc \<Rightarrow> nat" where
  "extra_measure x = num_active (x_state x) + (if x_remaining x > eps then 1 else 0)"

text \<open>
  A round that pays either retires its target or uses up the remaining funding, so the
  number of active debts, plus one while funding remains, goes down with every round.
\<close>

lemma round2_floor: "round2 y = of_int \<lfloor>100 * y + (100 * EPSILON + 1 / 2)\<rfloor> / 100"
  by (simp add: round2_def Math_round_def algebra_simps)

lemma round2_residue: "round2 (x - round2 x) = 0"
proof -
  define c :: real where "c = 100 * EPSILON + 1 / 2"
  define k where "k = \<lfloor>100 * x + c\<rfloor>"
  have "100 * (x - of_int k / 100) + c = (100 * x + c) + of_int (- k)" by simp
  then have "\<lfloor>100 * (x - of_int k / 100) + c\<rfloor> = \<lfloor>100 * x + c\<rfloor> + (- k)"
    by (simp only: floor_add_int)
  then have "\<lfloor>100 * (x - of_int k / 100) + c\<rfloor> = 0" by (simp add: k_def)
  then show ?thesis unfolding round2_floor k_def c_def by simp
qed

lemma num_active_update_le:
  "find P xs = Some t \<Longrightarrow> s_balance t > eps \<Longrightarrow>
   num_active (update_first P f xs) \<le> num_active xs"
  by (induction xs) (auto simp: num_active_def split: if_splits)

lemma num_active_update_less:
  "find P xs = Some t \<Longrightarrow> s_balance t > eps \<Longrightarrow> s_balance (f t) \<le> eps \<Longrightarrow>
   num_active (update_first P f xs) < num_active xs"
  by (induction xs) (auto simp: num_active_def split: if_splits)

lemma extra_step_decreases:
  assumes "extra_step strategy month x = Some x'" and rem: "x_remaining x > eps"
  shows "extra_measure x' < extra_measure x"
proof -
  from assms obtain targetId t where
    f: "find (\<lambda>d. s_id d = targetId) (x_state x) = Some t" and
    act: "s_balance t > eps" and
    pos: "round2 (min (s_balance t) (x_remaining x)) > 0" and
    x': "x' = \<lparr>x_state = update_first (\<lambda>d. s_id d = targetId)
                 (settle month (round2 (min (s_balance t) (x_remaining x)))) (x_state x),
               x_remaining = round2 (x_remaining x - round2 (min (s_balance t) (x_remaining x))),
               x_extraPaidTotal = x_extraPaidTotal x', x_extraByDebtId = x_extraByDebtId x',
               x_paid = x_paid x'\<rparr>"
    by (auto simp: extra_step_def Let_def split: option.splits if_splits)
  have eps0: "0 \<le> eps" by (simp add: eps_def)
  show ?thesis
  proof (cases "s_balance t \<le> x_remaining x")
    case True
    then have "s_balance (settle month (round2 (min (s_balance t) (x_remaining x))) t) = 0"
      by (simp add: settle_def Let_def min_def round2_residue)
    with num_active_update_less[OF f act, of "settle month (round2 (min (s_balance t) (x_remaining x)))"] eps0
    have "num_active (x_state x') < num_active (x_state x)"
      by (subst x') simp
    then show ?thesis using rem by (simp add: extra_measure_def)
  next
    case False
    then have "x_remaining x' = 0"
      by (subst x') (simp add: min_def round2_residue)
    moreover have "num_active (x_state x') \<le> num_active (x_state x)"
      using num_active_update_le[OF f act] by (subst x') simp
    ultimately show ?thesis using eps0 rem by (simp add: extra_measure_def)
  qed
qed


function extra_loop :: "string \<Rightarrow> nat \<Rightarrow> extra_acc \<Rightarrow> extra_acc" where
  "extra_loop strategy month x =
     (if x_remaining x > eps \<and> \<not> allPaid (x_state x) then
        (case extra_step strategy month x of
           None \<Rightarrow> x
         | Some x' \<Rightarrow> extra_loop strategy month x')
      else x)"
  by pat_completeness auto
termination
  by (relation "measure (\<lambda>(strategy, month, x). extra_measure x)")
     (auto simp: extra_step_decreases)


text \<open>The debt reported as the month's target: the largest total payment of the month.\<close>

definition actualTarget :: "(string \<Rightarrow> jsnumber) \<Rightarrow> obj \<Rightarrow> jsnumber option \<times> real" where
  "actualTarget N paid =
     foldl (\<lambda>(actualTargetId, actualTargetPaid) (idStr, amt).
              if amt > actualTargetPaid then (Some (Number_of_key N idStr), amt)
              else (actualTargetId, actualTargetPaid))
       (None, 0) (Object_entries paid)"

definition totalRemainingOf :: "debt_state list \<Rightarrow> real" where
  "totalRemainingOf state = round2 (foldl (\<lambda>sum d. sum + max 0 (s_balance d)) 0 state)"

record entry =
  e_month :: nat
  e_paymentThisMonth :: real
  e_requiredSum :: real
  e_unassigned :: real
  e_interestThisMonth :: real
  e_totalInterestToDate :: real
  e_minPaid :: real
  e_directedPaid :: real
  e_extraPaid :: real
  e_totalRemaining :: real
  e_targetDebtId :: "jsnumber option"
  e_targetDebtName :: "string option"
  e_appliedToTargetThisMonth :: real
  e_extraAppliedToTarget :: real
  e_extraByDebtId :: obj
  e_invalid :: bool

text \<open>
  The body of the month loop after the over-budget check. Besides the new state, the
  interest total and the timeline entry, the result keeps \<^verbatim>\<open>paidThisMonthByDebtId\<close> as
  it stands at the end of the month.
\<close>

record month_result =
  m_state :: "debt_state list"
  m_totalInterest :: real
  m_paid :: obj
  m_entry :: entry

definition simulateMonth ::
    "(string \<Rightarrow> jsnumber) \<Rightarrow> string \<Rightarrow> plan \<Rightarrow> real \<Rightarrow> nat \<Rightarrow> debt_state list \<Rightarrow> real
      \<Rightarrow> month_result" where
  "simulateMonth N strategy plan paymentThisMonth month state totalInterest =
     (case accrue state 0 of (state1, interestThisMonthTotal) \<Rightarrow>
        (let totalInterest' = round2 (totalInterest + interestThisMonthTotal);
             dynamicMinByDebtId = dynamicMins state1 []
         in case payRequired month dynamicMinByDebtId (p_requiredByDebtId plan) state1
                   \<lparr>remaining = round2 paymentThisMonth, minPaidTotal = 0,
                    directedPaidTotal = 0, paidThisMonthByDebtId = [],
                    requiredSumThisMonth = 0\<rparr> of
              (state2, a) \<Rightarrow>
                (let unassignedThisMonth =
                       round2 (max 0 (paymentThisMonth - requiredSumThisMonth a));
                     x = extra_loop strategy month
                           \<lparr>x_state = state2, x_remaining = remaining a, x_extraPaidTotal = 0,
                            x_extraByDebtId = [], x_paid = paidThisMonthByDebtId a\<rparr>;
                     actualTargetId = fst (actualTarget N (x_paid x));
                     actualTargetPaid = snd (actualTarget N (x_paid x));
                     actualTargetDebt =
                       (case actualTargetId of None \<Rightarrow> None
                        | Some t \<Rightarrow> find (\<lambda>d. id_is_number (s_id d) t) (x_state x))
                 in \<lparr>m_state = x_state x,
                     m_totalInterest = totalInterest',
                     m_paid = x_paid x,
                     m_entry =
                       \<lparr>e_month = month,
                        e_paymentThisMonth = paymentThisMonth,
                        e_requiredSum = requiredSumThisMonth a,
                        e_unassigned = unassignedThisMonth,
                        e_interestThisMonth = interestThisMonthTotal,
                        e_totalInterestToDate = totalInterest',
                        e_minPaid = minPaidTotal a,
                        e_directedPaid = directedPaidTotal a,
                        e_extraPaid = x_extraPaidTotal x,
                        e_totalRemaining = totalRemainingOf (x_state x),
                        e_targetDebtId = actualTargetId,
                        e_targetDebtName = map_option s_name actualTargetDebt,
                        e_appliedToTargetThisMonth = round2 actualTargetPaid,
                        e_extraAppliedToTarget =
                          round2 (obj_get0 (x_extraByDebtId x) (key_of_target actualTargetId)),
                        e_extraByDebtId = x_extraByDebtId x,
                        e_invalid = False\<rparr>\<rparr>)))"

definition invalidEntry :: "nat \<Rightarrow> real \<Rightarrow> plan \<Rightarrow> real \<Rightarrow> debt_state list \<Rightarrow> entry" where
  "invalidEntry month paymentThisMonth plan totalInterest state =
     \<lparr>e_month = month,
      e_paymentThisMonth = paymentThisMonth,
      e_requiredSum = round2 (clampNumber (p_requiredSum plan) 0),
      e_unassigned = round2 (clampNumber (p_unassigned plan) 0),
      e_interestThisMonth = 0,
      e_totalInterestToDate = totalInterest,
      e_minPaid = 0,
      e_directedPaid = 0,
      e_extraPaid = 0,
      e_totalRemaining = totalRemainingOf state,
      e_targetDebtId = None,
      e_targetDebtName = None,
      e_appliedToTargetThisMonth = 0,
      e_extraAppliedToTarget = 0,
      e_extraByDebtId = [],
      e_invalid = True\<rparr>"

subsection \<open>The month loop\<close>

record sim =
  sim_state :: "debt_state list"
  sim_totalInterest :: real
  sim_timeline :: "entry list"

definition MAX_MONTHS :: nat where
  "MAX_MONTHS = 600"

definition paymentOf :: "plan \<Rightarrow> real" where
  \<comment> \<open>\<^verbatim>\<open>paymentThisMonth\<close>\<close>
  "paymentOf plan = max 0 (round2 (clampNumber (p_monthlyPayment plan) 0))"

definition monthStep :: "(string \<Rightarrow> jsnumber) \<Rightarrow> string \<Rightarrow> plan \<Rightarrow> nat \<Rightarrow> sim \<Rightarrow> sim" where
  \<comment> \<open>a month that is not over budget: steps 1 to 4 and \<^verbatim>\<open>timeline.push\<close>\<close>
  "monthStep N strategy plan month s =
     (let r = simulateMonth N strategy plan (paymentOf plan) month
                (sim_state s) (sim_totalInterest s)
      in \<lparr>sim_state = m_state r, sim_totalInterest = m_totalInterest r,
          sim_timeline = sim_timeline s @ [m_entry r]\<rparr>)"

text \<open>
  \<^verbatim>\<open>for (let month = 1; month <= MAX_MONTHS; month++)\<close>: the first argument counts the
  months that are left, the second is \<^verbatim>\<open>month\<close>.
\<close>

fun sim_loop ::
    "(string \<Rightarrow> jsnumber) \<Rightarrow> string \<Rightarrow> (nat \<Rightarrow> plan) \<Rightarrow> nat \<Rightarrow> nat \<Rightarrow> sim \<Rightarrow> sim" where
  "sim_loop N strategy paymentPlanFn 0 month s = s"
| "sim_loop N strategy paymentPlanFn (Suc left) month s =
     (if allPaid (sim_state s) then s
      else
        (let plan = paymentPlanFn month
         in if p_overBudget plan then
              s\<lparr>sim_timeline := sim_timeline s
                   @ [invalidEntry month (paymentOf plan) plan (sim_totalInterest s) (sim_state s)]\<rparr>
            else sim_loop N strategy paymentPlanFn left (Suc month)
                   (monthStep N strategy plan month s)))"

definition initial_sim :: "debt list \<Rightarrow> sim" where
  "initial_sim debts =
     \<lparr>sim_state = map init_state debts, sim_totalInterest = 0, sim_timeline = []\<rparr>"

definition runMonths :: "(string \<Rightarrow> jsnumber) \<Rightarrow> string \<Rightarrow> debt list \<Rightarrow> (nat \<Rightarrow> plan) \<Rightarrow> sim" where
  \<comment> \<open>the state, the interest total and the timeline when the loop is left\<close>
  "runMonths N strategy debts paymentPlanFn =
     sim_loop N strategy paymentPlanFn MAX_MONTHS 1 (initial_sim debts)"

text \<open>
  The iterations of a run: \<open>visits N strategy paymentPlanFn debts left month s\<close> holds when
  the loop of that run reaches the top of its body at \<open>month\<close> with \<open>left\<close> months to go
  and the data \<open>s\<close>.
\<close>

inductive visits ::
    "(string \<Rightarrow> jsnumber) \<Rightarrow> string \<Rightarrow> (nat \<Rightarrow> plan) \<Rightarrow> debt list \<Rightarrow> nat \<Rightarrow> nat \<Rightarrow> sim \<Rightarrow> bool"
  for N strategy paymentPlanFn debts where
  first: "visits N strategy paymentPlanFn debts MAX_MONTHS 1 (initial_sim debts)"
| later: "visits N strategy paymentPlanFn debts (Suc left) month s \<Longrightarrow>
          \<not> allPaid (sim_state s) \<Longrightarrow> \<not> p_overBudget (paymentPlanFn month) \<Longrightarrow>
          visits N strategy paymentPlanFn debts left (Suc month)
            (monthStep N strategy (paymentPlanFn month) month s)"

record per_debt =
  pd_id :: jsid
  pd_name :: string
  pd_apr :: real
  pd_payoffMonth :: nat
  pd_interestPaid :: real

record run_result =
  r_strategy :: string
  monthsToDebtFree :: nat
  totalInterest :: real
  timeline :: "entry list"
  perDebt :: "per_debt list"

definition simulateStrategy ::
    "(string \<Rightarrow> jsnumber) \<Rightarrow> string \<Rightarrow> debt list \<Rightarrow> (nat \<Rightarrow> plan) \<Rightarrow> run_result" where
  "simulateStrategy N strategy debts paymentPlanFn =
     (let s = runMonths N strategy debts paymentPlanFn;
          months = (if allPaid (sim_state s) then length (sim_timeline s) else MAX_MONTHS)
      in \<lparr>r_strategy = strategy,
          monthsToDebtFree = months,
          totalInterest = sim_totalInterest s,
          timeline = sim_timeline s,
          perDebt = map (\<lambda>d. \<lparr>pd_id = s_id d, pd_name = s_name d, pd_apr = s_apr d,
                                pd_payoffMonth = (case s_payoffMonth d of Some m \<Rightarrow> m
                                                  | None \<Rightarrow> months),
                                pd_interestPaid = s_interestPaid d\<rparr>) (sim_state s)\<rparr>)"

section \<open>Feasibility gate\<close>

text \<open>
  \<^verbatim>\<open>reality\<close> is a function of the values in its dependency list: the number of active
  debts, income, expenses, free cash, the total of the minimums, the payment mode and the
  first month's over-budget flag and payment. \<^verbatim>\<open>freeCash\<close> is \<^verbatim>\<open>income - expenses\<close>.
\<close>

definition freeCashOf :: "real \<Rightarrow> real \<Rightarrow> real" where
  "freeCashOf income expenses = income - expenses"

record reality_result =
  g_state :: string
  isAtRisk :: bool
  hasDebts :: bool
  cannotCoverBills :: bool
  cannotCoverMinimums :: bool
  scheduleInvalid :: bool
  month1BelowMins :: bool
  freeCash :: real
  minimumsTotal :: real
  shortfallBills :: real
  shortfallMinimums :: real
  shortfallMonth1 :: real
  minIncomeNeeded :: real
  minDebtPaymentNeeded :: real

definition reality ::
    "nat \<Rightarrow> real \<Rightarrow> real \<Rightarrow> real \<Rightarrow> real \<Rightarrow> string \<Rightarrow> bool \<Rightarrow> real \<Rightarrow> reality_result" where
  "reality activeDebtsLength income expenses freeCash0 minimumsTotal0 paymentMode
       firstMonthOverBudget firstMonthPayment =
     (let hasDebts0 = (activeDebtsLength > 0);
          incomeMissing = (income \<le> 0);
          cannotCoverBills0 = (income < expenses);
          cannotCoverMinimums0 = (if hasDebts0 then freeCash0 < minimumsTotal0 else False);
          scheduleInvalid0 = (if paymentMode = ''schedule'' then firstMonthOverBudget else False);
          month1BelowMins0 = (if hasDebts0 then firstMonthPayment < minimumsTotal0 else False);
          isAtRisk0 = (incomeMissing \<or> cannotCoverBills0 \<or> cannotCoverMinimums0
                       \<or> scheduleInvalid0 \<or> month1BelowMins0);
          shortfallBills0 = max 0 (expenses - income);
          shortfallMinimums0 = (if hasDebts0 then max 0 (minimumsTotal0 - freeCash0) else 0);
          shortfallMonth10 = (if hasDebts0 then max 0 (minimumsTotal0 - firstMonthPayment) else 0);
          minIncomeNeeded0 = (if hasDebts0 then expenses + minimumsTotal0 else expenses);
          minDebtPaymentNeeded0 = minimumsTotal0;
          bufferAfterMins = freeCash0 - minimumsTotal0;
          state0 = (if isAtRisk0 then ''at_risk''
                    else (let st = (if bufferAfterMins < 200 then ''tight'' else ''stable'')
                          in if bufferAfterMins > 1500 \<and> freeCash0 > 2000 then ''optimizing''
                             else st))
      in \<lparr>g_state = state0, isAtRisk = isAtRisk0, hasDebts = hasDebts0,
          cannotCoverBills = cannotCoverBills0, cannotCoverMinimums = cannotCoverMinimums0,
          scheduleInvalid = scheduleInvalid0, month1BelowMins = month1BelowMins0,
          freeCash = freeCash0, minimumsTotal = minimumsTotal0,
          shortfallBills = shortfallBills0, shortfallMinimums = shortfallMinimums0,
          shortfallMonth1 = shortfallMonth10, minIncomeNeeded = minIncomeNeeded0,
          minDebtPaymentNeeded = minDebtPaymentNeeded0\<rparr>)"

section \<open>Inputs for the examples\<close>

text \<open>
  \<open>bare_debt\<close> is a debt object with no field set; the examples update it. \<open>Number_nan\<close>
  is a string-to-number conversion for the examples: the only strings it meets there are
  ids such as \<^verbatim>\<open>d1\<close> and \<^verbatim>\<open>d2\<close> of \<^verbatim>\<open>DEFAULTS\<close>, which are not numeric literals.
\<close>

definition bare_debt :: debt where
  "bare_debt =
     \<lparr>d_id = IdNum 0, d_name = [], d_type = [], d_balance = None, d_interest_rate = None,
      d_min_override_enabled = False, d_min_override_amount = None,
      d_min_floor_enabled = False, d_min_floor = None,
      d_estimated_minimum_payment = None, d_minimum_payment = None\<rparr>"


definition Number_nan :: "string \<Rightarrow> jsnumber" where
  "Number_nan s = NaN"

section \<open>Amounts in whole cents\<close>

definition on_grid :: "real \<Rightarrow> bool" where
  "on_grid x = (\<exists>k::int. x = of_int k / 100)"

section \<open>Facts about rounding\<close>

lemma round2_mono: "x \<le> y \<Longrightarrow> round2 x \<le> round2 y"
  unfolding round2_floor by (simp add: divide_right_mono floor_mono)

lemma round2_cents: "round2 (of_int k / 100) = of_int k / 100"
proof -
  have "\<lfloor>of_int k + (100 * EPSILON + 1 / 2 :: real)\<rfloor> = k"
    unfolding EPSILON_def by (rule floor_unique) simp_all
  then show ?thesis unfolding round2_floor by simp
qed

lemma round2_on_grid [simp]: "on_grid (round2 x)"
  unfolding on_grid_def round2_floor by blast

lemma round2_id: "on_grid x \<Longrightarrow> round2 x = x"
  unfolding on_grid_def by (elim exE) (simp only: round2_cents)

lemma round2_zero [simp]: "round2 0 = 0"
  using round2_cents [of 0] by simp

lemma round2_nonneg: "0 \<le> x \<Longrightarrow> 0 \<le> round2 x"
  using round2_mono [of 0 x] by simp

lemma round2_of_nat [simp]: "round2 (of_nat n) = of_nat n"
  using round2_cents [of "100 * int n"] by simp

lemma round2_numeral [simp]: "round2 (numeral n) = numeral n"
  using round2_of_nat [of "numeral n"] by simp

lemma round2_one [simp]: "round2 1 = 1"
  using round2_of_nat [of 1] by simp

lemma on_grid_zero [simp]: "on_grid 0"
  unfolding on_grid_def by (rule exI [of _ 0]) simp

lemma on_grid_add: "on_grid x \<Longrightarrow> on_grid y \<Longrightarrow> on_grid (x + y)"
  unfolding on_grid_def
  by (metis add_divide_distrib of_int_add)

lemma on_grid_diff: "on_grid x \<Longrightarrow> on_grid y \<Longrightarrow> on_grid (x - y)"
  unfolding on_grid_def
  by (metis diff_divide_distrib of_int_diff)

lemma on_grid_min: "on_grid x \<Longrightarrow> on_grid y \<Longrightarrow> on_grid (min x y)"
  by (simp add: min_def)

lemma on_grid_max: "on_grid x \<Longrightarrow> on_grid y \<Longrightarrow> on_grid (max x y)"
  by (simp add: max_def)

section \<open>Properties of the estimator\<close>

text \<open>
  C2. For a debt of the line-of-credit type (the tag \<^verbatim>\<open>loc\<close> of the code) with balance
  \<open>b \<ge> 0\<close> and annual rate \<open>a \<ge> 0\<close> the estimator returns \<open>max 25 (b * (a / 100 / 12))\<close>;
  a type that is none of the three recognised tags gets the default heuristic
  \<open>max 25 (interestOnly + 0.005 b) (0.015 b)\<close>. The function is total: no input raises.
\<close>

theorem estimate_loc_and_default:
  assumes "0 \<le> b" and "0 \<le> a"
  shows "estimateMinimumPayment ''loc'' (Some b) (Some a) = max 25 (b * (a / 100 / 12))
       \<and> (t \<noteq> ''credit_card'' \<and> t \<noteq> ''loc'' \<and> t \<noteq> ''loan'' \<longrightarrow>
           estimateMinimumPayment t (Some b) (Some a)
             = max 25 (max (b * (a / 100 / 12) + 0.005 * b) (0.015 * b)))"
  using assms by (simp add: estimateMinimumPayment_def clampNumber_def Let_def)

theorem estimate_loc_and_default_witness:
  "(0::real) \<le> 12000 \<and> (0::real) \<le> 6
   \<and> ''mortgage'' \<noteq> ''credit_card'' \<and> ''mortgage'' \<noteq> ''loc'' \<and> ''mortgage'' \<noteq> ''loan''
   \<and> estimateMinimumPayment ''loc'' (Some 12000) (Some 6) = 60
   \<and> estimateMinimumPayment ''mortgage'' (Some 12000) (Some 6) = 180"
  using estimate_loc_and_default [of 12000 6 "''mortgage''"]
  by simp


section \<open>Facts about the month loop\<close>

lemma visits_run:
  "visits N strategy paymentPlanFn debts left month s \<Longrightarrow>
   runMonths N strategy debts paymentPlanFn = sim_loop N strategy paymentPlanFn left month s"
  by (induction rule: visits.induct) (simp_all add: runMonths_def Let_def)

lemma monthStep_timeline:
  "sim_timeline (monthStep N strategy plan month s) = sim_timeline s @ [m_entry (simulateMonth N strategy plan (paymentOf plan) month (sim_state s) (sim_totalInterest s))]"
  by (simp add: monthStep_def Let_def)

lemma simulateMonth_valid:
  "\<not> e_invalid (m_entry (simulateMonth N strategy plan pay month state ti))"
  by (simp add: simulateMonth_def Let_def split: prod.splits)


lemma visits_valid:
  "visits N strategy paymentPlanFn debts left month s \<Longrightarrow> \<forall>e \<in> set (sim_timeline s). \<not> e_invalid e"
  by (induction rule: visits.induct) (auto simp: initial_sim_def monthStep_timeline simulateMonth_valid)

lemma MAX_MONTHS_Suc: "MAX_MONTHS = Suc 599"
  by (simp add: MAX_MONTHS_def)

section \<open>A single loan paid one unit a month\<close>












section \<open>Feasibility gate: income below bills\<close>

text \<open>
  C8. With income 2000 and bills 2700 the gate reports \<open>isAtRisk\<close> with a bills shortfall
  of exactly 700, whatever the number of active debts, the free cash and minimum totals
  handed in, the payment mode and the first month's plan are.
\<close>

theorem gate_bills_shortfall:
  "isAtRisk (reality n 2000 2700 fc mt pm ob fp)
   \<and> cannotCoverBills (reality n 2000 2700 fc mt pm ob fp)
   \<and> shortfallBills (reality n 2000 2700 fc mt pm ob fp) = 700
   \<and> g_state (reality n 2000 2700 fc mt pm ob fp) = ''at_risk''"
  by (simp add: reality_def Let_def)

theorem gate_bills_shortfall_witness:
  "isAtRisk (reality 2 2000 2700 (freeCashOf 2000 2700) 346.97 ''fixed'' False 1500)
   \<and> shortfallBills (reality 2 2000 2700 (freeCashOf 2000 2700) 346.97 ''fixed'' False 1500) = 700"
  using gate_bills_shortfall [of 2 "freeCashOf 2000 2700" "346.97" "''fixed''" False 1500]
  by simp

section \<open>The over-budget halt\<close>

lemma example_rows_normalized:
  "normalizeRows [\<lparr>row_month = Some 1, row_amount = Some 100,
                    row_allocations = Some [(KNum 0, 200)]\<rparr>]
   = [(1, \<lparr>row_month = Some 1, row_amount = Some 100,
            row_allocations = Some [(KNum 0, 200)]\<rparr>)]"
  by (simp add: normalizeRows_def clampNumber_def)

lemma example_row_required:
  "computeScheduleMonthRequiredPayments
     [bare_debt\<lparr>d_type := ''credit_card'', d_balance := Some 1000\<rparr>]
     \<lparr>row_month = Some 1, row_amount = Some 100, row_allocations = Some [(KNum 0, 200)]\<rparr>
     (Some 100)
   = \<lparr>requiredByDebtId = [(KNum 0, 200)], requiredSum = 200, overBudget = True,
      unassigned = 0\<rparr>"
  by (simp add: computeScheduleMonthRequiredPayments_def bare_debt_def clampNumber_def
      pkey_of_def obj_get_def Let_def)

lemma over_budget_example:
  "p_overBudget (getPaymentPlanFn ''schedule'' 1500
     [\<lparr>row_month = Some 1, row_amount = Some 100, row_allocations = Some [(KNum 0, 200)]\<rparr>]
     [bare_debt\<lparr>d_type := ''credit_card'', d_balance := Some 1000\<rparr>] 1)"
  by (simp add: getPaymentPlanFn_def example_rows_normalized Let_def example_row_required)

text \<open>
  C5. When a run reaches a month whose plan reports \<open>overBudget\<close> (with some debt still
  unpaid, so that the plan is looked up at all), the run ends there: its timeline is the
  timeline so far, which holds no invalid entry, followed by one entry with
  \<open>invalid = true\<close>, zero interest and zero payments for that month, and the debts are as
  they were before the month.
\<close>

theorem over_budget_halts:
  assumes "visits N strategy paymentPlanFn debts (Suc left) month s"
    and "\<not> allPaid (sim_state s)"
    and "p_overBudget (paymentPlanFn month)"
  shows "timeline (simulateStrategy N strategy debts paymentPlanFn)
           = sim_timeline s
             @ [invalidEntry month (paymentOf (paymentPlanFn month)) (paymentPlanFn month)
                  (sim_totalInterest s) (sim_state s)]
       \<and> (\<forall>e \<in> set (sim_timeline s). \<not> e_invalid e)
       \<and> sim_state (runMonths N strategy debts paymentPlanFn) = sim_state s
       \<and> e_invalid (last (timeline (simulateStrategy N strategy debts paymentPlanFn)))
       \<and> e_month (last (timeline (simulateStrategy N strategy debts paymentPlanFn))) = month
       \<and> e_interestThisMonth (last (timeline (simulateStrategy N strategy debts paymentPlanFn))) = 0
       \<and> e_minPaid (last (timeline (simulateStrategy N strategy debts paymentPlanFn))) = 0
       \<and> e_directedPaid (last (timeline (simulateStrategy N strategy debts paymentPlanFn))) = 0
       \<and> e_extraPaid (last (timeline (simulateStrategy N strategy debts paymentPlanFn))) = 0
       \<and> e_appliedToTargetThisMonth (last (timeline (simulateStrategy N strategy debts paymentPlanFn))) = 0"
proof -
  have "runMonths N strategy debts paymentPlanFn
          = s\<lparr>sim_timeline := sim_timeline s
                @ [invalidEntry month (paymentOf (paymentPlanFn month)) (paymentPlanFn month)
                     (sim_totalInterest s) (sim_state s)]\<rparr>"
    using visits_run [OF assms(1)] assms(2,3) by (simp add: Let_def)
  then show ?thesis
    using visits_valid [OF assms(1)]
    by (simp add: simulateStrategy_def Let_def invalidEntry_def)
qed

theorem over_budget_halts_witness:
  "visits Number_nan ''snowball''
     (getPaymentPlanFn ''schedule'' 1500
        [\<lparr>row_month = Some 1, row_amount = Some 100, row_allocations = Some [(KNum 0, 200)]\<rparr>]
        [bare_debt\<lparr>d_type := ''credit_card'', d_balance := Some 1000\<rparr>])
     [bare_debt\<lparr>d_type := ''credit_card'', d_balance := Some 1000\<rparr>] (Suc 599) 1
     (initial_sim [bare_debt\<lparr>d_type := ''credit_card'', d_balance := Some 1000\<rparr>])
   \<and> \<not> allPaid (sim_state (initial_sim [bare_debt\<lparr>d_type := ''credit_card'', d_balance := Some 1000\<rparr>]))
   \<and> p_overBudget (getPaymentPlanFn ''schedule'' 1500
        [\<lparr>row_month = Some 1, row_amount = Some 100, row_allocations = Some [(KNum 0, 200)]\<rparr>]
        [bare_debt\<lparr>d_type := ''credit_card'', d_balance := Some 1000\<rparr>] 1)
   \<and> map e_invalid (timeline (simulateStrategy Number_nan ''snowball''
        [bare_debt\<lparr>d_type := ''credit_card'', d_balance := Some 1000\<rparr>]
        (getPaymentPlanFn ''schedule'' 1500
          [\<lparr>row_month = Some 1, row_amount = Some 100, row_allocations = Some [(KNum 0, 200)]\<rparr>]
          [bare_debt\<lparr>d_type := ''credit_card'', d_balance := Some 1000\<rparr>]))) = [True]"
proof -
  let ?debts = "[bare_debt\<lparr>d_type := ''credit_card'', d_balance := Some 1000\<rparr>]"
  let ?plan = "getPaymentPlanFn ''schedule'' 1500
        [\<lparr>row_month = Some 1, row_amount = Some 100, row_allocations = Some [(KNum 0, 200)]\<rparr>]
        ?debts"
  have v: "visits Number_nan ''snowball'' ?plan ?debts (Suc 599) 1 (initial_sim ?debts)"
    using visits.first [of Number_nan "''snowball''" ?plan ?debts] by (simp only: MAX_MONTHS_Suc)
  have u: "\<not> allPaid (sim_state (initial_sim ?debts))"
    by (simp add: initial_sim_def init_state_def allPaid_def bare_debt_def clampNumber_def eps_def)
  have o: "p_overBudget (?plan 1)"
    by (rule over_budget_example)
  have t: "timeline (simulateStrategy Number_nan ''snowball'' ?debts ?plan)
             = sim_timeline (initial_sim ?debts)
               @ [invalidEntry 1 (paymentOf (?plan 1)) (?plan 1)
                    (sim_totalInterest (initial_sim ?debts)) (sim_state (initial_sim ?debts))]"
    using over_budget_halts [OF v u o] by (rule conjunct1)
  have "map e_invalid (timeline (simulateStrategy Number_nan ''snowball'' ?debts ?plan)) = [True]"
    unfolding t by (simp add: initial_sim_def invalidEntry_def)
  with v u o show ?thesis by (intro conjI)
qed

section \<open>The reported horizon\<close>






end
